theory Spec2Isabelle
  imports Complex_Main "HOL-Library.List_Lexorder" "HOL-Library.Char_ord"
begin

section \<open>Data model (shared schema and the SQLite tables)\<close>

text \<open>
  The tables of \<open>SqliteStorage.createTables\<close> and the row types of the shared schema.
  Field names carry a short prefix per record (\<open>p_\<close> punch, \<open>ip_\<close> InsertPunch,
  \<open>e_\<close> employee, \<open>c_\<close> correction, \<open>t_\<close> time-off request), since several tables
  share column names and \<open>id\<close> is a constant of HOL.

  A \<open>Date\<close> is its \<open>getTime()\<close> value, an \<open>int\<close> of milliseconds since the epoch (the
  column \<open>timestamp INTEGER\<close>). Coordinates are stored and copied only; they are
  rationals here. \<open>NULL\<close>, \<open>null\<close> and \<open>undefined\<close> are \<open>None\<close>. Where a key of an
  update may reach the storage absent or as \<open>null\<close>, and the \<open>!== undefined\<close> test
  of the code tells the two apart, the field is an option of an option: \<open>None\<close>
  absent, \<open>Some None\<close> \<open>null\<close>.
\<close>

datatype punchType = In | Out

datatype status = Pending | Approved | Denied

datatype timeOffType = Vacation | Sick | Personal | Other

record employee =
  e_id :: string
  e_name :: string
  e_pin :: string
  e_isActive :: bool
  e_isAdmin :: bool
  e_email :: "string option"
  e_phone :: "string option"
  e_birthday :: "string option"
  e_photoUrl :: "string option"

record punch =
  p_id :: string
  p_employeeId :: string
  p_punchType :: punchType
  p_timestamp :: int
  p_latitude :: "rat option"
  p_longitude :: "rat option"
  p_ipAddress :: string
  p_flagged :: bool

text \<open>\<open>InsertPunch\<close>: the punch schema without \<open>id\<close> and \<open>timestamp\<close>; \<open>flagged\<close> has a
  default and is optional.\<close>

record insertPunch =
  ip_employeeId :: string
  ip_punchType :: punchType
  ip_latitude :: "rat option"
  ip_longitude :: "rat option"
  ip_ipAddress :: string
  ip_flagged :: "bool option"

record correction =
  c_id :: string
  c_employeeId :: string
  c_punchId :: "string option"
  c_date :: string
  c_note :: string
  c_status :: status

record timeOffRequest =
  t_id :: string
  t_employeeId :: string
  t_startDate :: string
  t_endDate :: string
  t_startTime :: "string option"
  t_endTime :: "string option"
  t_isPartialDay :: bool
  t_type :: timeOffType
  t_reason :: "string option"
  t_requestDate :: int
  t_status :: status
  t_adminResponse :: "string option"
  t_processedDate :: "int option"
  t_processedBy :: "string option"

text \<open>The database: one list of rows per table, in insertion (rowid) order.\<close>

record db =
  employees :: "employee list"
  punches :: "punch list"
  corrections :: "correction list"
  timeOffRequests :: "timeOffRequest list"

text \<open>
  A JavaScript \<open>Error\<close> is its message. The \<open>err\<close> argument that the sqlite3 driver
  hands to a callback is an input of each storage operation (\<open>None\<close> is \<open>null\<close>): the
  model does not decide when the driver fails, it follows the branch the code takes
  when it does.
\<close>

datatype error = Error string

section \<open>Punch ledger: \<open>SqliteStorage.createPunch\<close>\<close>

text \<open>\<open>x || null\<close> on an optional number: \<open>0\<close> is falsy.\<close>

definition or_null :: "rat option \<Rightarrow> rat option" where
  "or_null x = (case x of None \<Rightarrow> None | Some v \<Rightarrow> if v = 0 then None else Some v)"

text \<open>
  \<^verbatim>\<open>SELECT id FROM punches WHERE employee_id = ? AND punch_type = ? AND timestamp > ?
  ORDER BY timestamp DESC LIMIT 1\<close>: the id of the first row of the ordered selection,
  or no row.
\<close>

definition recentDuplicate :: "db \<Rightarrow> string \<Rightarrow> punchType \<Rightarrow> int \<Rightarrow> string option" where
  "recentDuplicate d employeeId punchType recentTimeThreshold =
     (case sort_key (\<lambda>p. - p_timestamp p)
             (filter (\<lambda>p. p_employeeId p = employeeId \<and> p_punchType p = punchType
                          \<and> p_timestamp p > recentTimeThreshold) (punches d)) of
        [] \<Rightarrow> None
      | row # _ \<Rightarrow> Some (p_id row))"

definition duplicateMessage :: string where
  "duplicateMessage = ''Duplicate punch detected. Please wait before punching again.''"

text \<open>
  \<open>createPunch newId now selErr insErr punch d\<close>: \<open>newId\<close> is the value of
  \<open>randomUUID()\<close>, \<open>now\<close> that of \<open>new Date()\<close>, \<open>selErr\<close> and \<open>insErr\<close> the driver's
  \<open>err\<close> for the duplicate check and for the INSERT. The promise rejects (\<open>Inl\<close>) or
  resolves with the punch object (\<open>Inr\<close>); the second component is the database after
  the call. The stored row takes \<open>punch.latitude\<close> as given, the returned object
  \<open>punch.latitude || null\<close>.
\<close>

definition createPunch ::
  "string \<Rightarrow> int \<Rightarrow> error option \<Rightarrow> error option \<Rightarrow> insertPunch \<Rightarrow> db \<Rightarrow> (error + punch) \<times> db" where
  "createPunch newId now selErr insErr punch d =
     (let recentTimeThreshold = now - (30 * 1000) in
      case selErr of
        Some err \<Rightarrow> (Inl err, d)
      | None \<Rightarrow>
          (case recentDuplicate d (ip_employeeId punch) (ip_punchType punch) recentTimeThreshold of
             Some row \<Rightarrow> (Inl (Error duplicateMessage), d)
           | None \<Rightarrow>
               (case insErr of
                  Some err \<Rightarrow> (Inl err, d)
                | None \<Rightarrow>
                    (Inr \<lparr> p_id = newId,
                           p_employeeId = ip_employeeId punch,
                           p_punchType = ip_punchType punch,
                           p_timestamp = now,
                           p_latitude = or_null (ip_latitude punch),
                           p_longitude = or_null (ip_longitude punch),
                           p_ipAddress = ip_ipAddress punch,
                           p_flagged = (case ip_flagged punch of None \<Rightarrow> False | Some b \<Rightarrow> b) \<rparr>,
                     d \<lparr> punches := punches d @
                           [\<lparr> p_id = newId,
                              p_employeeId = ip_employeeId punch,
                              p_punchType = ip_punchType punch,
                              p_timestamp = now,
                              p_latitude = ip_latitude punch,
                              p_longitude = ip_longitude punch,
                              p_ipAddress = ip_ipAddress punch,
                              p_flagged = (case ip_flagged punch of None \<Rightarrow> False | Some b \<Rightarrow> b) \<rparr>] \<rparr>))))"

section \<open>Punch ledger: \<open>SqliteStorage.updatePunch\<close>\<close>

text \<open>
  \<open>Partial<InsertPunch & { timestamp?: Date }>\<close>: every field may be absent
  (\<open>undefined\<close>, the outer \<open>None\<close>); a coordinate that is present may be \<open>null\<close>.
  \<open>updatePunch\<close> reads \<open>timestamp\<close>, \<open>punchType\<close>, \<open>latitude\<close>, \<open>longitude\<close> and
  \<open>flagged\<close> and ignores the other two.
\<close>

record punchUpdate =
  u_employeeId :: "string option"
  u_punchType :: "punchType option"
  u_latitude :: "rat option option"
  u_longitude :: "rat option option"
  u_ipAddress :: "string option"
  u_flagged :: "bool option"
  u_timestamp :: "int option"

text \<open>\<^verbatim>\<open>SELECT * FROM punches WHERE id = ?\<close> with the callback
  \<open>if (err || !row) resolve(undefined) else resolve({...row})\<close>.\<close>

definition selectPunchWhereId :: "error option \<Rightarrow> string \<Rightarrow> db \<Rightarrow> punch option" where
  "selectPunchWhereId err i d =
     (case err of
        Some _ \<Rightarrow> None
      | None \<Rightarrow> find (\<lambda>row. p_id row = i) (punches d))"

text \<open>The \<open>SET\<close> list that \<open>updatePunch\<close> builds, applied to one row.\<close>

definition setPunchColumns :: "punchUpdate \<Rightarrow> punch \<Rightarrow> punch" where
  "setPunchColumns punch row =
     row \<lparr> p_timestamp := (case u_timestamp punch of None \<Rightarrow> p_timestamp row | Some t \<Rightarrow> t),
           p_punchType := (case u_punchType punch of None \<Rightarrow> p_punchType row | Some ty \<Rightarrow> ty),
           p_latitude := (case u_latitude punch of None \<Rightarrow> p_latitude row | Some v \<Rightarrow> v),
           p_longitude := (case u_longitude punch of None \<Rightarrow> p_longitude row | Some v \<Rightarrow> v),
           p_flagged := (case u_flagged punch of None \<Rightarrow> p_flagged row | Some b \<Rightarrow> b) \<rparr>"

text \<open>
  \<open>updatePunch err1 err2 i punch d\<close>: with no column to set, one SELECT (driver result
  \<open>err1\<close>); otherwise the UPDATE (\<open>err1\<close>) and then the SELECT (\<open>err2\<close>). A failed
  UPDATE changes nothing and resolves \<open>undefined\<close>.
\<close>

definition updatePunch ::
  "error option \<Rightarrow> error option \<Rightarrow> string \<Rightarrow> punchUpdate \<Rightarrow> db \<Rightarrow> punch option \<times> db" where
  "updatePunch err1 err2 i punch d =
     (if u_timestamp punch = None \<and> u_punchType punch = None \<and> u_latitude punch = None
         \<and> u_longitude punch = None \<and> u_flagged punch = None
      then (selectPunchWhereId err1 i d, d)
      else
        (case err1 of
           Some _ \<Rightarrow> (None, d)
         | None \<Rightarrow>
             (let d' = d \<lparr> punches := map (\<lambda>row. if p_id row = i then setPunchColumns punch row else row)
                                          (punches d) \<rparr>
              in (selectPunchWhereId err2 i d', d'))))"

definition noPunchUpdate :: punchUpdate where
  "noPunchUpdate = \<lparr> u_employeeId = None, u_punchType = None, u_latitude = None,
                     u_longitude = None, u_ipAddress = None, u_flagged = None,
                     u_timestamp = None \<rparr>"

section \<open>Correction workflow: \<open>SqliteStorage.updateCorrection\<close>\<close>

text \<open>
  \<open>Partial<InsertCorrection>\<close>, as the route hands it over: the request body,
  unchecked. \<open>updateCorrection\<close> reads \<open>status\<close> and \<open>note\<close>; each is absent
  (\<open>None\<close>), \<open>null\<close> (\<open>Some None\<close>) or a value.
\<close>

record correctionUpdate =
  cu_employeeId :: "string option"
  cu_punchId :: "string option option"
  cu_date :: "string option"
  cu_note :: "string option option"
  cu_status :: "status option option"

definition selectCorrectionWhereId :: "error option \<Rightarrow> string \<Rightarrow> db \<Rightarrow> correction option" where
  "selectCorrectionWhereId err i d =
     (case err of
        Some _ \<Rightarrow> None
      | None \<Rightarrow> find (\<lambda>row. c_id row = i) (corrections d))"

text \<open>The \<open>SET\<close> list applied to one row, for values that are not \<open>null\<close>.\<close>

definition setCorrectionColumns :: "correctionUpdate \<Rightarrow> correction \<Rightarrow> correction" where
  "setCorrectionColumns correction row =
     row \<lparr> c_status := (case cu_status correction of Some (Some s) \<Rightarrow> s | _ \<Rightarrow> c_status row),
           c_note := (case cu_note correction of Some (Some n) \<Rightarrow> n | _ \<Rightarrow> c_note row) \<rparr>"

text \<open>
  \<open>updateCorrection err1 err2 i correction d\<close>, with the driver results as for
  \<open>updatePunch\<close>. A \<open>null\<close> status or note is pushed as \<open>NULL\<close>; both columns are
  \<open>NOT NULL\<close>, so the UPDATE changes nothing: it fails on the row with id \<open>i\<close> and
  the promise resolves \<open>undefined\<close>, or there is no such row and the SELECT that
  follows finds none. Either way the result is \<open>undefined\<close> and the table is as
  before.
\<close>

definition updateCorrection ::
  "error option \<Rightarrow> error option \<Rightarrow> string \<Rightarrow> correctionUpdate \<Rightarrow> db \<Rightarrow> correction option \<times> db" where
  "updateCorrection err1 err2 i correction d =
     (if cu_status correction = None \<and> cu_note correction = None
      then (selectCorrectionWhereId err1 i d, d)
      else
        (case err1 of
           Some _ \<Rightarrow> (None, d)
         | None \<Rightarrow>
             if cu_status correction = Some None \<or> cu_note correction = Some None
             then (None, d)
             else
               (let d' = d \<lparr> corrections :=
                               map (\<lambda>row. if c_id row = i then setCorrectionColumns correction row
                                          else row)
                                   (corrections d) \<rparr>
                in (selectCorrectionWhereId err2 i d', d'))))"

section \<open>HTTP routes\<close>

text \<open>A response is \<open>res.json(body)\<close> or \<open>res.status(code).json({ message })\<close>.\<close>

datatype 'a response = Json 'a | Status nat string

text \<open>\<open>x || null\<close> and \<open>!x\<close> on an optional string: the empty string is falsy.\<close>

definition str_or_null :: "string option \<Rightarrow> string option" where
  "str_or_null x = (case x of None \<Rightarrow> None | Some s \<Rightarrow> if s = [] then None else Some s)"

definition getEmployee :: "error option \<Rightarrow> string \<Rightarrow> db \<Rightarrow> employee option" where
  "getEmployee err i d =
     (case err of
        Some _ \<Rightarrow> None
      | None \<Rightarrow>
          (case find (\<lambda>row. e_id row = i) (employees d) of
             None \<Rightarrow> None
           | Some row \<Rightarrow>
               Some (row \<lparr> e_email := str_or_null (e_email row),
                           e_phone := str_or_null (e_phone row),
                           e_birthday := str_or_null (e_birthday row),
                           e_photoUrl := str_or_null (e_photoUrl row) \<rparr>)))"

text \<open>
  The middleware \<open>requireAdmin\<close>: \<open>None\<close> is \<open>next()\<close>, otherwise the response it sends.
  \<open>getEmployee\<close> never rejects, so the middleware's \<open>catch\<close> (status 500) is not
  reached.
\<close>

definition requireAdmin :: "string option \<Rightarrow> error option \<Rightarrow> db \<Rightarrow> (nat \<times> string) option" where
  "requireAdmin sessionEmployeeId err d =
     (case str_or_null sessionEmployeeId of
        None \<Rightarrow> Some (401, ''Not authenticated'')
      | Some employeeId \<Rightarrow>
          (case getEmployee err employeeId d of
             None \<Rightarrow> Some (401, ''Admin access required'')
           | Some employee \<Rightarrow>
               if e_isAdmin employee then None else Some (401, ''Admin access required'')))"

text \<open>
  The body of \<open>POST /api/admin/punches/manual\<close>. The admin page sends the timestamp
  as text (\<open>toISOString()\<close>); \<open>mb_timestamp\<close> is the instant that this text denotes
  (\<open>new Date(timestamp)\<close>), \<open>None\<close> when the field is missing or empty. \<open>mb_punchType\<close>
  is the raw text, checked by the schema's enum.
\<close>

record manualPunchBody =
  mb_employeeId :: "string option"
  mb_timestamp :: "int option"
  mb_punchType :: "string option"
  mb_note :: "string option"

definition parsePunchType :: "string \<Rightarrow> punchType option" where
  "parsePunchType s = (if s = ''in'' then Some In else if s = ''out'' then Some Out else None)"

text \<open>
  \<open>insertPunchSchema.parse(punchData)\<close> for the object the manual route builds:
  \<open>insertPunchSchema\<close> omits \<open>timestamp\<close>, so the parsed object has no such key; the
  parse throws when \<open>punchType\<close> is not in the enum.
\<close>

definition manualPunchData :: "string \<Rightarrow> string \<Rightarrow> string option \<Rightarrow> insertPunch option" where
  "manualPunchData employeeId punchType reqIp =
     (case parsePunchType punchType of
        None \<Rightarrow> None
      | Some ty \<Rightarrow>
          Some \<lparr> ip_employeeId = employeeId,
                 ip_punchType = ty,
                 ip_latitude = None,
                 ip_longitude = None,
                 ip_ipAddress = (case str_or_null reqIp of None \<Rightarrow> ''127.0.0.1'' | Some a \<Rightarrow> a),
                 ip_flagged = Some False \<rparr>)"

text \<open>
  \<open>POST /api/admin/punches/manual\<close>, behind \<open>requireAdmin\<close> (driver result \<open>authErr\<close>).
  Every exception inside the handler, the duplicate rejection of \<open>createPunch\<close>
  included, ends in the same \<open>catch\<close>.
\<close>

definition manualPunchRoute ::
  "string option \<Rightarrow> error option \<Rightarrow> string \<Rightarrow> int \<Rightarrow> error option \<Rightarrow> error option \<Rightarrow>
   string option \<Rightarrow> manualPunchBody \<Rightarrow> db \<Rightarrow> punch response \<times> db" where
  "manualPunchRoute sessionEmployeeId authErr newId now selErr insErr reqIp body d =
     (case requireAdmin sessionEmployeeId authErr d of
        Some (code, message) \<Rightarrow> (Status code message, d)
      | None \<Rightarrow>
          (case (str_or_null (mb_employeeId body), mb_timestamp body, str_or_null (mb_punchType body)) of
             (Some employeeId, Some timestamp, Some punchType) \<Rightarrow>
               (case manualPunchData employeeId punchType reqIp of
                  None \<Rightarrow> (Status 400 ''Failed to create manual punch'', d)
                | Some validatedData \<Rightarrow>
                    (case createPunch newId now selErr insErr validatedData d of
                       (Inl err, d') \<Rightarrow> (Status 400 ''Failed to create manual punch'', d')
                     | (Inr punch, d') \<Rightarrow> (Json punch, d')))
           | _ \<Rightarrow> (Status 400 ''Employee ID, timestamp, and punch type are required'', d)))"

text \<open>
  \<open>PUT /api/admin/corrections/:id\<close>: the request body goes to \<open>updateCorrection\<close> as
  it is. \<open>updateCorrection\<close> never rejects, so the handler's \<open>catch\<close> is not reached.
\<close>

definition correctionRoute ::
  "string option \<Rightarrow> error option \<Rightarrow> error option \<Rightarrow> error option \<Rightarrow> string \<Rightarrow>
   correctionUpdate \<Rightarrow> db \<Rightarrow> correction response \<times> db" where
  "correctionRoute sessionEmployeeId authErr err1 err2 i body d =
     (case requireAdmin sessionEmployeeId authErr d of
        Some (code, message) \<Rightarrow> (Status code message, d)
      | None \<Rightarrow>
          (case updateCorrection err1 err2 i body d of
             (None, d') \<Rightarrow> (Status 404 ''Correction not found'', d')
           | (Some correction, d') \<Rightarrow> (Json correction, d')))"

section \<open>Time-off workflow: \<open>SqliteStorage.getTimeOffRequestsInRange\<close>\<close>

text \<open>
  Dates are \<open>TEXT\<close> columns and SQLite compares them as strings, byte by byte; that is
  the order of \<open>string\<close> here (lexicographic over the character codes).

  The row mapping copies every column, with \<open>Boolean(row.is_partial_day)\<close> and
  \<open>row.processed_date ? new Date(row.processed_date) : null\<close> (a stored \<open>0\<close> reads as
  \<open>null\<close>).
\<close>

definition rowToTimeOffRequest :: "timeOffRequest \<Rightarrow> timeOffRequest" where
  "rowToTimeOffRequest row =
     row \<lparr> t_processedDate :=
             (case t_processedDate row of None \<Rightarrow> None | Some t \<Rightarrow> if t = 0 then None else Some t) \<rparr>"

text \<open>
  The \<open>WHERE\<close> clause, with the parameters bound as the code binds them
  (\<open>[endDate, startDate, startDate, endDate]\<close>):
  \<^verbatim>\<open>(start_date <= ? AND end_date >= ?) OR (start_date >= ? AND start_date <= ?)\<close>
\<close>

definition inRangeWhere :: "string \<Rightarrow> string \<Rightarrow> timeOffRequest \<Rightarrow> bool" where
  "inRangeWhere startDate endDate row \<longleftrightarrow>
     (t_startDate row \<le> endDate \<and> t_endDate row \<ge> startDate)
     \<or> (t_startDate row \<ge> startDate \<and> t_startDate row \<le> endDate)"

text \<open>\<open>ORDER BY start_date ASC\<close>; on a driver error the promise resolves \<open>[]\<close>.\<close>

definition getTimeOffRequestsInRange ::
  "error option \<Rightarrow> string \<Rightarrow> string \<Rightarrow> db \<Rightarrow> timeOffRequest list" where
  "getTimeOffRequestsInRange err startDate endDate d =
     (case err of
        Some _ \<Rightarrow> []
      | None \<Rightarrow>
          map rowToTimeOffRequest
            (sort_key t_startDate (filter (inRangeWhere startDate endDate) (timeOffRequests d))))"

text \<open>
  The claim's words, for comparison with the \<open>WHERE\<close> clause: the closed intervals
  \<open>[startDate, endDate]\<close> of the request and \<open>[qStart, qEnd]\<close> of the query have a date
  in common.
\<close>

definition intervalsIntersect :: "string \<Rightarrow> string \<Rightarrow> string \<Rightarrow> string \<Rightarrow> bool" where
  "intervalsIntersect s e qStart qEnd \<longleftrightarrow> (\<exists>x. s \<le> x \<and> x \<le> e \<and> qStart \<le> x \<and> x \<le> qEnd)"

section \<open>Stats aggregator: \<open>SqliteStorage.getAdminStats\<close>\<close>

record adminStats =
  activeEmployees :: nat
  clockedInToday :: nat
  punchesToday :: nat
  pendingCorrections :: nat

text \<open>
  \<open>getAdminStats setHours0 now err1 err2 err3 err4 d\<close>: \<open>setHours0\<close> is the runtime's
  \<open>setHours(0, 0, 0, 0)\<close> (local midnight of the day of an instant, the server's time
  zone decides it), \<open>now\<close> is \<open>new Date()\<close>, \<open>err1\<close> to \<open>err4\<close> the driver results of the
  four queries. A count stays \<open>0\<close> when its query fails.
  \<^verbatim>\<open>SELECT COUNT(DISTINCT employee_id) as count FROM punches
  WHERE timestamp >= ? AND timestamp < ? AND punch_type = 'in'\<close>
\<close>

definition getAdminStats ::
  "(int \<Rightarrow> int) \<Rightarrow> int \<Rightarrow> error option \<Rightarrow> error option \<Rightarrow> error option \<Rightarrow> error option \<Rightarrow>
   db \<Rightarrow> adminStats" where
  "getAdminStats setHours0 now err1 err2 err3 err4 d =
     (let todayStart = setHours0 now;
          todayEnd = todayStart + 24 * 60 * 60 * 1000
      in \<lparr> activeEmployees =
             (case err1 of
                Some _ \<Rightarrow> 0
              | None \<Rightarrow> length (filter e_isActive (employees d))),
           clockedInToday =
             (case err2 of
                Some _ \<Rightarrow> 0
              | None \<Rightarrow>
                  length (remdups (map p_employeeId
                    (filter (\<lambda>p. p_timestamp p \<ge> todayStart \<and> p_timestamp p < todayEnd
                                 \<and> p_punchType p = In) (punches d))))),
           punchesToday =
             (case err3 of
                Some _ \<Rightarrow> 0
              | None \<Rightarrow>
                  length (filter (\<lambda>p. p_timestamp p \<ge> todayStart \<and> p_timestamp p < todayEnd)
                            (punches d))),
           pendingCorrections =
             (case err4 of
                Some _ \<Rightarrow> 0
              | None \<Rightarrow> length (filter (\<lambda>c. c_status c = Pending) (corrections d))) \<rparr>)"

text \<open>
  The claim's words, for comparison: the employees whose last punch of today, the one
  of maximum timestamp within \<open>[todayStart, todayEnd)\<close>, has type \<open>in\<close>.
\<close>

definition lastPunchOfTodayIsIn :: "int \<Rightarrow> int \<Rightarrow> punch list \<Rightarrow> string \<Rightarrow> bool" where
  "lastPunchOfTodayIsIn todayStart todayEnd ps employeeId \<longleftrightarrow>
     (\<exists>p \<in> set ps. p_employeeId p = employeeId \<and> p_punchType p = In
         \<and> todayStart \<le> p_timestamp p \<and> p_timestamp p < todayEnd
         \<and> (\<forall>q \<in> set ps. p_employeeId q = employeeId
                \<and> todayStart \<le> p_timestamp q \<and> p_timestamp q < todayEnd
                \<longrightarrow> p_timestamp q \<le> p_timestamp p))"

definition clockedInTodayAsClaimed :: "int \<Rightarrow> int \<Rightarrow> punch list \<Rightarrow> nat" where
  "clockedInTodayAsClaimed todayStart todayEnd ps =
     length (filter (lastPunchOfTodayIsIn todayStart todayEnd ps) (remdups (map p_employeeId ps)))"

section \<open>Time reconstruction: the employee dashboard's \<open>useMemo\<close> blocks\<close>

text \<open>
  The punches reach the client as JSON; \<open>new Date(punch.timestamp).getTime()\<close> is the
  \<open>p_timestamp\<close> of the row. \<open>[...xs].sort((a, b) => a.time - b.time)\<close> is a stable
  ascending sort on the timestamp, \<open>sort_key p_timestamp\<close>.

  JavaScript numbers are doubles. Sums and differences of millisecond counts are exact
  in them; the two final divisions are modelled as exact division of rationals, which
  agrees with the double result whenever the quotient is representable (as for
  \<open>7.0\<close>, \<open>2.0\<close>, \<open>0.0\<close> and \<open>60\<close>).
\<close>

record timeTotals =
  hoursWorked :: rat
  breakTime :: rat

text \<open>
  The first loop, \<open>for (const punch of sortedPunches)\<close>, with the loop state
  \<open>totalWorked\<close>, \<open>lastClockIn\<close> as arguments. A \<open>Date\<close> object is truthy, so
  \<open>&& lastClockIn\<close> tests for \<open>null\<close>.
\<close>

fun workedLoop :: "punch list \<Rightarrow> int \<Rightarrow> int option \<Rightarrow> int \<times> int option" where
  "workedLoop [] totalWorked lastClockIn = (totalWorked, lastClockIn)"
| "workedLoop (punch # rest) totalWorked lastClockIn =
     (if p_punchType punch = In then workedLoop rest totalWorked (Some (p_timestamp punch))
      else
        (case lastClockIn of
           Some clockIn \<Rightarrow> workedLoop rest (totalWorked + (p_timestamp punch - clockIn)) None
         | None \<Rightarrow> workedLoop rest totalWorked lastClockIn))"

text \<open>The second loop, \<open>for (let i = 1; i < sortedPunches.length; i++)\<close>, over
  \<open>prevPunch = sortedPunches[i - 1]\<close> and \<open>currPunch = sortedPunches[i]\<close>.\<close>

fun breakLoop :: "punch list \<Rightarrow> int \<Rightarrow> int" where
  "breakLoop (prevPunch # currPunch # rest) totalBreak =
     breakLoop (currPunch # rest)
       (if p_punchType prevPunch = Out \<and> p_punchType currPunch = In
        then totalBreak + (p_timestamp currPunch - p_timestamp prevPunch)
        else totalBreak)"
| "breakLoop _ totalBreak = totalBreak"

text \<open>
  \<open>hoursWorkedAndBreakTime now isCurrentlyClockedIn todayPunches\<close>: the first
  \<open>useMemo\<close>. \<open>now\<close> is the \<open>new Date()\<close> of the live add-on and
  \<open>isCurrentlyClockedIn\<close> comes from the last-punch query.
\<close>

definition hoursWorkedAndBreakTime :: "int \<Rightarrow> bool \<Rightarrow> punch list \<Rightarrow> timeTotals" where
  "hoursWorkedAndBreakTime now isCurrentlyClockedIn todayPunches =
     (if todayPunches = [] then \<lparr> hoursWorked = 0, breakTime = 0 \<rparr>
      else
        (let sortedPunches = sort_key p_timestamp todayPunches;
             (totalWorked, lastClockIn) = workedLoop sortedPunches 0 None;
             totalWorked' =
               (case lastClockIn of
                  Some clockIn \<Rightarrow>
                    if isCurrentlyClockedIn then totalWorked + (now - clockIn) else totalWorked
                | None \<Rightarrow> totalWorked);
             totalBreak = breakLoop sortedPunches 0
         in \<lparr> hoursWorked = of_int totalWorked' / (1000 * 60 * 60),
              breakTime = of_int totalBreak / (1000 * 60) \<rparr>))"

text \<open>
  The weekly view. Its loop adds each closed session already divided:
  \<open>dayHours += workedMs / (1000 * 60 * 60)\<close>.
\<close>

fun dayLoop :: "punch list \<Rightarrow> rat \<Rightarrow> int option \<Rightarrow> rat \<times> int option" where
  "dayLoop [] dayHours lastClockIn = (dayHours, lastClockIn)"
| "dayLoop (punch # rest) dayHours lastClockIn =
     (if p_punchType punch = In then dayLoop rest dayHours (Some (p_timestamp punch))
      else
        (case lastClockIn of
           Some clockIn \<Rightarrow>
             dayLoop rest (dayHours + of_int (p_timestamp punch - clockIn) / (1000 * 60 * 60)) None
         | None \<Rightarrow> dayLoop rest dayHours lastClockIn))"

text \<open>
  The body of the loop over the seven days, for one \<open>currentDay\<close>. \<open>toDateString\<close> is
  the runtime's \<open>Date.prototype.toDateString\<close> (the local calendar date of an instant),
  \<open>today\<close> the \<open>new Date()\<close> taken at the top of the memo.
\<close>

definition dayHoursOf :: "(int \<Rightarrow> 'd) \<Rightarrow> int \<Rightarrow> bool \<Rightarrow> punch list \<Rightarrow> int \<Rightarrow> rat" where
  "dayHoursOf toDateString today isCurrentlyClockedIn weeklyPunches currentDay =
     (let dayPunches = filter (\<lambda>punch. toDateString (p_timestamp punch) = toDateString currentDay)
                         weeklyPunches;
          sortedDayPunches = sort_key p_timestamp dayPunches;
          (dayHours, lastClockIn) = dayLoop sortedDayPunches 0 None
      in case lastClockIn of
           Some clockIn \<Rightarrow>
             if toDateString currentDay = toDateString today \<and> isCurrentlyClockedIn
             then dayHours + of_int (today - clockIn) / (1000 * 60 * 60)
             else dayHours
         | None \<Rightarrow> dayHours)"

text \<open>
  The calendar operations of the runtime that \<open>weeklyHours\<close> uses: \<open>cal_startOfWeek\<close>
  is \<open>setDate(getDate() - getDay())\<close> followed by \<open>setHours(0, 0, 0, 0)\<close>, and
  \<open>cal_addDays t i\<close> is \<open>setDate(getDate() + i)\<close>.
\<close>

record 'd calendar =
  cal_toDateString :: "int \<Rightarrow> 'd"
  cal_startOfWeek :: "int \<Rightarrow> int"
  cal_addDays :: "int \<Rightarrow> nat \<Rightarrow> int"
  cal_getDate :: "int \<Rightarrow> nat"
  cal_getMonth :: "int \<Rightarrow> nat"
  cal_getFullYear :: "int \<Rightarrow> int"

record weekDay =
  wd_day :: string
  wd_date :: nat
  wd_hours :: rat
  wd_isToday :: bool
  wd_month :: nat
  wd_year :: int

definition daysOfWeek :: "string list" where
  "daysOfWeek = [''Sun'', ''Mon'', ''Tue'', ''Wed'', ''Thu'', ''Fri'', ''Sat'']"

definition weeklyHours :: "'d calendar \<Rightarrow> int \<Rightarrow> bool \<Rightarrow> punch list \<Rightarrow> weekDay list" where
  "weeklyHours cal today isCurrentlyClockedIn weeklyPunches =
     map (\<lambda>i. let currentDay = cal_addDays cal (cal_startOfWeek cal today) i
              in \<lparr> wd_day = daysOfWeek ! i,
                   wd_date = cal_getDate cal currentDay,
                   wd_hours = dayHoursOf (cal_toDateString cal) today isCurrentlyClockedIn
                                weeklyPunches currentDay,
                   wd_isToday = (cal_toDateString cal currentDay = cal_toDateString cal today),
                   wd_month = cal_getMonth cal currentDay,
                   wd_year = cal_getFullYear cal currentDay \<rparr>)
         [0 ..< 7]"

text \<open>
  The claim's words, for comparison with the two loops: the in/out pairs of the walk
  are the neighbours \<open>in, out\<close> of the sorted sequence (an \<open>out\<close> closes the session
  that the punch just before it opened), and the breaks are the neighbours
  \<open>out, in\<close>. \<open>adjacentGaps a b\<close> sums the gap of every pair of neighbours whose types
  are \<open>a\<close> then \<open>b\<close>.
\<close>

fun adjacentGaps :: "punchType \<Rightarrow> punchType \<Rightarrow> punch list \<Rightarrow> int" where
  "adjacentGaps a b (x # y # rest) =
     (if p_punchType x = a \<and> p_punchType y = b then p_timestamp y - p_timestamp x else 0)
     + adjacentGaps a b (y # rest)"
| "adjacentGaps a b _ = 0"

section \<open>Example data\<close>

text \<open>Instants of 2025-03-10 (UTC), in milliseconds: \<open>atTime h m\<close> is \<open>h:m\<close> of that day.\<close>

definition atTime :: "int \<Rightarrow> int \<Rightarrow> int" where
  "atTime h m = 1741564800000 + h * 3600000 + m * 60000"

definition utcDay :: "int \<Rightarrow> int" where
  "utcDay t = t div 86400000"

definition utcMidnight :: "int \<Rightarrow> int" where
  "utcMidnight t = t - t mod 86400000"

definition mkPunch :: "string \<Rightarrow> string \<Rightarrow> punchType \<Rightarrow> int \<Rightarrow> punch" where
  "mkPunch i employeeId ty t =
     \<lparr> p_id = i, p_employeeId = employeeId, p_punchType = ty, p_timestamp = t,
       p_latitude = None, p_longitude = None, p_ipAddress = ''10.0.0.7'', p_flagged = False \<rparr>"

definition mkInsert :: "string \<Rightarrow> punchType \<Rightarrow> insertPunch" where
  "mkInsert employeeId ty =
     \<lparr> ip_employeeId = employeeId, ip_punchType = ty, ip_latitude = None, ip_longitude = None,
       ip_ipAddress = ''10.0.0.7'', ip_flagged = Some False \<rparr>"

definition emptyDb :: db where
  "emptyDb = \<lparr> employees = [], punches = [], corrections = [], timeOffRequests = [] \<rparr>"

definition adminEmployee :: employee where
  "adminEmployee =
     \<lparr> e_id = ''adm'', e_name = ''Admin'', e_pin = ''0000'', e_isActive = True, e_isAdmin = True,
       e_email = None, e_phone = None, e_birthday = None, e_photoUrl = None \<rparr>"

definition workerEmployee :: employee where
  "workerEmployee =
     \<lparr> e_id = ''e1'', e_name = ''Worker'', e_pin = ''1234'', e_isActive = True, e_isAdmin = False,
       e_email = None, e_phone = None, e_birthday = None, e_photoUrl = None \<rparr>"

definition dupDb :: db where
  "dupDb = emptyDb \<lparr> employees := [adminEmployee, workerEmployee],
                     punches := [mkPunch ''p1'' ''e1'' In (atTime 9 0)] \<rparr>"

definition manualBody :: "string \<Rightarrow> int \<Rightarrow> string \<Rightarrow> manualPunchBody" where
  "manualBody employeeId timestamp punchType =
     \<lparr> mb_employeeId = Some employeeId, mb_timestamp = Some timestamp,
       mb_punchType = Some punchType, mb_note = Some ''Manual entry by admin'' \<rparr>"

definition pendingCorrection :: correction where
  "pendingCorrection =
     \<lparr> c_id = ''c1'', c_employeeId = ''e1'', c_punchId = Some ''p1'',
       c_date = ''2025-03-10T17:05:00.000Z'', c_note = ''Forgot to clock out'',
       c_status = Pending \<rparr>"

definition correctionDb :: db where
  "correctionDb = dupDb \<lparr> corrections := [pendingCorrection] \<rparr>"

text \<open>The body of a decide call that denies: \<open>{ status: "denied", note }\<close>, the note
  absent, \<open>null\<close> or a text.\<close>

definition denyBody :: "string option option \<Rightarrow> correctionUpdate" where
  "denyBody note =
     \<lparr> cu_employeeId = None, cu_punchId = None, cu_date = None,
       cu_note = note, cu_status = Some (Some Denied) \<rparr>"

definition statsDb :: db where
  "statsDb = emptyDb \<lparr> employees := [adminEmployee, workerEmployee],
                       punches := [mkPunch ''p1'' ''e1'' In (atTime 9 0),
                                   mkPunch ''p2'' ''e1'' Out (atTime 17 0)] \<rparr>"

definition mkRequest :: "string \<Rightarrow> string \<Rightarrow> string \<Rightarrow> timeOffRequest" where
  "mkRequest i startDate endDate =
     \<lparr> t_id = i, t_employeeId = ''e1'', t_startDate = startDate, t_endDate = endDate,
       t_startTime = None, t_endTime = None, t_isPartialDay = False, t_type = Vacation,
       t_reason = None, t_requestDate = atTime 8 0, t_status = Pending, t_adminResponse = None,
       t_processedDate = None, t_processedBy = None \<rparr>"

definition timeOffDb :: db where
  "timeOffDb = emptyDb \<lparr> employees := [adminEmployee, workerEmployee],
                         timeOffRequests := [mkRequest ''r1'' ''2025-03-10'' ''2025-03-12''] \<rparr>"

definition reversedDb :: db where
  "reversedDb = emptyDb \<lparr> employees := [adminEmployee, workerEmployee],
                          timeOffRequests := [mkRequest ''r2'' ''2025-03-15'' ''2025-03-10''] \<rparr>"

definition fullDay :: "punch list" where
  "fullDay = [mkPunch ''a'' ''e1'' In (atTime 9 0), mkPunch ''b'' ''e1'' Out (atTime 12 0),
              mkPunch ''c'' ''e1'' In (atTime 13 0), mkPunch ''d'' ''e1'' Out (atTime 17 0)]"


text \<open>The session that is open after a punch: its own timestamp after an \<open>in\<close>, none
  after an \<open>out\<close>.\<close>

definition openAfter :: "punch \<Rightarrow> int option" where
  "openAfter p = (if p_punchType p = In then Some (p_timestamp p) else None)"

text \<open>
  The claim's words, for comparison with the state of the walk at its end: the
  unpaired trailing \<open>in\<close> of a sorted sequence is its last punch when that punch is
  an \<open>in\<close>; \<open>trailingIn\<close> is its time.
\<close>

definition trailingIn :: "punch list \<Rightarrow> int option" where
  "trailingIn ps = (if ps = [] then None else openAfter (last ps))"

definition openDay :: "punch list" where
  "openDay = [mkPunch ''a'' ''e1'' In (atTime 8 0), mkPunch ''b'' ''e1'' Out (atTime 8 30),
              mkPunch ''c'' ''e1'' In (atTime 9 0)]"

section \<open>The dedup window of \<open>createPunch\<close>\<close>

lemma recentDuplicate_None_iff:
  "recentDuplicate d e ty th = None \<longleftrightarrow>
     \<not> (\<exists>p \<in> set (punches d). p_employeeId p = e \<and> p_punchType p = ty \<and> p_timestamp p > th)"
proof -
  let ?sel = "filter (\<lambda>p. p_employeeId p = e \<and> p_punchType p = ty \<and> p_timestamp p > th) (punches d)"
  have "recentDuplicate d e ty th = None \<longleftrightarrow> sort_key (\<lambda>p. - p_timestamp p) ?sel = []"
    by (simp add: recentDuplicate_def split: list.splits)
  also have "\<dots> \<longleftrightarrow> set (sort_key (\<lambda>p. - p_timestamp p) ?sel) = {}"
    by (simp only: set_empty)
  also have "\<dots> \<longleftrightarrow> set ?sel = {}"
    by (simp only: set_sort)
  also have "\<dots> \<longleftrightarrow> \<not> (\<exists>p \<in> set (punches d). p_employeeId p = e \<and> p_punchType p = ty \<and> p_timestamp p > th)"
    by (auto simp: filter_empty_conv)
  finally show ?thesis .
qed

text \<open>
  \<^bold>\<open>C1.\<close> When the duplicate check itself succeeds (\<open>selErr = None\<close>) and a punch of
  the same employee and the same type has a timestamp later than thirty seconds before
  the wall-clock time of the insert, \<open>createPunch\<close> rejects with the error whose
  message is the duplicate-punch text, whatever the INSERT would have done, and the
  database is the one it started from.
\<close>

theorem createPunch_rejects_recent_duplicate:
  assumes "p \<in> set (punches d)"
    and "p_employeeId p = ip_employeeId punch"
    and "p_punchType p = ip_punchType punch"
    and "now - 30000 < p_timestamp p"
  shows "createPunch newId now None insErr punch d
           = (Inl (Error ''Duplicate punch detected. Please wait before punching again.''), d)"
proof -
  have "recentDuplicate d (ip_employeeId punch) (ip_punchType punch) (now - 30000) \<noteq> None"
    using assms by (auto simp: recentDuplicate_None_iff)
  then show ?thesis
    by (auto simp: createPunch_def duplicateMessage_def)
qed

theorem createPunch_rejects_recent_duplicate_witness:
  "createPunch ''p2'' (atTime 9 0 + 10000) None None (mkInsert ''e1'' In) dupDb
     = (Inl (Error ''Duplicate punch detected. Please wait before punching again.''), dupDb)"
  by (rule createPunch_rejects_recent_duplicate [where p = "mkPunch ''p1'' ''e1'' In (atTime 9 0)"])
     (simp_all add: dupDb_def mkPunch_def mkInsert_def emptyDb_def)

text \<open>
  \<^bold>\<open>C10.\<close> The boundary is strict. With both statements served by the driver,
  \<open>createPunch\<close> rejects with the duplicate error exactly when some punch of the same
  employee and type has a timestamp strictly greater than \<open>now - 30000\<close>; a punch
  exactly thirty seconds old does not count.
\<close>

theorem createPunch_dedup_boundary:
  "createPunch newId now None None punch d = (Inl (Error duplicateMessage), d) \<longleftrightarrow>
     (\<exists>p \<in> set (punches d). p_employeeId p = ip_employeeId punch
          \<and> p_punchType p = ip_punchType punch \<and> p_timestamp p > now - 30000)"
proof (cases "recentDuplicate d (ip_employeeId punch) (ip_punchType punch) (now - 30000)")
  case None
  then show ?thesis
    using recentDuplicate_None_iff [of d "ip_employeeId punch" "ip_punchType punch" "now - 30000"]
    by (simp add: createPunch_def)
next
  case (Some row)
  then show ?thesis
    using recentDuplicate_None_iff [of d "ip_employeeId punch" "ip_punchType punch" "now - 30000"]
    by (auto simp: createPunch_def)
qed

theorem createPunch_dedup_boundary_witness:
  "createPunch ''p2'' (atTime 9 0 + 30000) None None (mkInsert ''e1'' In) dupDb
      \<noteq> (Inl (Error duplicateMessage), dupDb)
   \<and> createPunch ''p2'' (atTime 9 0 + 29999) None None (mkInsert ''e1'' In) dupDb
      = (Inl (Error duplicateMessage), dupDb)"
  using createPunch_dedup_boundary [of "''p2''" "atTime 9 0 + 30000" "mkInsert ''e1'' In" dupDb]
        createPunch_dedup_boundary [of "''p2''" "atTime 9 0 + 29999" "mkInsert ''e1'' In" dupDb]
  by (simp add: dupDb_def mkPunch_def mkInsert_def emptyDb_def)

section \<open>Editing a punch: \<open>updatePunch\<close>\<close>

lemma find_map_same_id:
  assumes "\<And>row. key (f row) = key row"
  shows "find (\<lambda>row. key row = i) (map (\<lambda>row. if key row = i then f row else row) rows)
           = map_option f (find (\<lambda>row. key row = i) rows)"
  using assms by (induction rows) auto

lemma p_id_setPunchColumns: "p_id (setPunchColumns u row) = p_id row"
  by (simp add: setPunchColumns_def)

lemma c_id_setCorrectionColumns: "c_id (setCorrectionColumns u row) = c_id row"
  by (simp add: setCorrectionColumns_def)

text \<open>
  \<^bold>\<open>C9.\<close> Let \<open>P\<close> be the stored punch with id \<open>i\<close> and let the driver serve the
  statements. Then \<open>updatePunch(i, {timestamp: T})\<close> resolves with \<open>P\<close> in which only the
  timestamp has changed, to \<open>T\<close>, and a read of id \<open>i\<close> afterwards (the SELECT by id that
  \<open>updatePunch\<close> runs for an empty update) returns the same punch: \<open>employeeId\<close>,
  \<open>punchType\<close>, \<open>latitude\<close>, \<open>longitude\<close>, \<open>ipAddress\<close> and \<open>flagged\<close> are those of \<open>P\<close>.
\<close>

theorem updatePunch_timestamp_roundtrip:
  assumes "find (\<lambda>row. p_id row = i) (punches d) = Some P"
  shows "fst (updatePunch None None i (noPunchUpdate \<lparr> u_timestamp := Some T \<rparr>) d)
           = Some (P \<lparr> p_timestamp := T \<rparr>)
       \<and> fst (updatePunch None None i noPunchUpdate
                (snd (updatePunch None None i (noPunchUpdate \<lparr> u_timestamp := Some T \<rparr>) d)))
           = Some (P \<lparr> p_timestamp := T \<rparr>)"
proof -
  let ?u = "noPunchUpdate \<lparr> u_timestamp := Some T \<rparr>"
  let ?d' = "d \<lparr> punches := map (\<lambda>row. if p_id row = i then setPunchColumns ?u row else row)
                                (punches d) \<rparr>"
  have cols: "setPunchColumns ?u P = P \<lparr> p_timestamp := T \<rparr>"
    by (simp add: setPunchColumns_def noPunchUpdate_def)
  have sel: "selectPunchWhereId None i ?d' = Some (P \<lparr> p_timestamp := T \<rparr>)"
    using assms cols
    by (simp add: selectPunchWhereId_def
          find_map_same_id [where key = p_id, OF p_id_setPunchColumns])
  have upd: "updatePunch None None i ?u d = (Some (P \<lparr> p_timestamp := T \<rparr>), ?d')"
    using sel by (simp add: updatePunch_def Let_def)
  have rd: "updatePunch None None i noPunchUpdate ?d' = (Some (P \<lparr> p_timestamp := T \<rparr>), ?d')"
    using sel by (simp add: updatePunch_def noPunchUpdate_def)
  show ?thesis using upd rd by simp
qed

theorem updatePunch_timestamp_roundtrip_witness:
  "fst (updatePunch None None ''p1'' (noPunchUpdate \<lparr> u_timestamp := Some (atTime 8 45) \<rparr>) dupDb)
      = Some (mkPunch ''p1'' ''e1'' In (atTime 8 45))
   \<and> fst (updatePunch None None ''p1'' noPunchUpdate
        (snd (updatePunch None None ''p1''
                (noPunchUpdate \<lparr> u_timestamp := Some (atTime 8 45) \<rparr>) dupDb)))
      = Some (mkPunch ''p1'' ''e1'' In (atTime 8 45))"
  using updatePunch_timestamp_roundtrip
          [of "''p1''" dupDb "mkPunch ''p1'' ''e1'' In (atTime 9 0)" "atTime 8 45"]
  by (simp add: dupDb_def emptyDb_def mkPunch_def)

section \<open>Manual entry by an admin\<close>

text \<open>
  The punch that \<open>createPunch\<close> creates is stamped with the wall clock. \<open>InsertPunch\<close> has
  no timestamp, so nothing that a caller supplies reaches the row.
\<close>

lemma createPunch_timestamp_is_now:
  assumes "createPunch newId now selErr insErr punch d = (Inr created, d')"
  shows "p_timestamp created = now \<and> punches d' \<noteq> [] \<and> p_timestamp (last (punches d')) = now"
  using assms by (auto simp: createPunch_def split: option.splits)

text \<open>
  \<^bold>\<open>C3\<close>, as the claim states it, fails: the manual route calls the same
  \<open>createPunch\<close> as a self-service punch. Here the worker clocked in at 09:00:00 and an
  admin enters a manual \<open>in\<close> for 09:00:05 ten seconds after the punch; the route answers
  400 and the ledger is unchanged.
\<close>

theorem manualPunchRoute_dedup_counterexample:
  "manualPunchRoute (Some ''adm'') None ''p2'' (atTime 9 0 + 10000) None None (Some ''10.0.0.1'')
      (manualBody ''e1'' (atTime 9 0 + 5000) ''in'') dupDb
     = (Status 400 ''Failed to create manual punch'', dupDb)"
  by (simp add: manualPunchRoute_def requireAdmin_def getEmployee_def str_or_null_def
        manualBody_def manualPunchData_def parsePunchType_def createPunch_def recentDuplicate_def
        dupDb_def emptyDb_def adminEmployee_def workerEmployee_def mkPunch_def)

text \<open>
  \<^bold>\<open>C3\<close>, amended. For an admin session and any body that names an employee, a
  timestamp and a punch type of the enum, the manual route is subject to the
  thirty-second window:
  when a punch of that employee and type is newer than \<open>now - 30000\<close> (and the duplicate
  check itself succeeds) the route answers 400 \<open>Failed to create manual punch\<close> and
  stores nothing; when there is none and the driver serves both statements, it answers
  with the created punch and appends one row, both with the given employee and type,
  the fresh id, no coordinates and \<open>flagged = false\<close>.
\<close>

theorem manualPunchRoute_uses_createPunch:
  assumes "requireAdmin sessionEmployeeId authErr d = None"
    and "mb_employeeId body = Some employeeId" and "employeeId \<noteq> []"
    and "mb_timestamp body = Some timestamp"
    and "mb_punchType body = Some punchType" and "parsePunchType punchType = Some ty"
  shows "((\<exists>p \<in> set (punches d). p_employeeId p = employeeId \<and> p_punchType p = ty
              \<and> p_timestamp p > now - 30000) \<longrightarrow>
            manualPunchRoute sessionEmployeeId authErr newId now None insErr reqIp body d
              = (Status 400 ''Failed to create manual punch'', d))
       \<and> (\<not> (\<exists>p \<in> set (punches d). p_employeeId p = employeeId \<and> p_punchType p = ty
              \<and> p_timestamp p > now - 30000) \<longrightarrow>
            (\<exists>punch row.
               manualPunchRoute sessionEmployeeId authErr newId now None None reqIp body d
                 = (Json punch, d \<lparr> punches := punches d @ [row] \<rparr>)
               \<and> p_id punch = newId \<and> p_employeeId punch = employeeId \<and> p_punchType punch = ty
               \<and> p_latitude punch = None \<and> p_longitude punch = None \<and> \<not> p_flagged punch
               \<and> p_id row = newId \<and> p_employeeId row = employeeId \<and> p_punchType row = ty
               \<and> p_latitude row = None \<and> p_longitude row = None \<and> \<not> p_flagged row))"
proof -
  have ptne: "punchType \<noteq> []"
    using assms(6) by (auto simp: parsePunchType_def split: if_splits)
  obtain v where v: "manualPunchData employeeId punchType reqIp = Some v"
    "ip_employeeId v = employeeId" "ip_punchType v = ty" "ip_latitude v = None"
    "ip_longitude v = None" "ip_flagged v = Some False"
    using assms(6) by (simp add: manualPunchData_def)
  have route: "manualPunchRoute sessionEmployeeId authErr newId now None e2 reqIp body d
               = (case createPunch newId now None e2 v d of
                    (Inl err, d') \<Rightarrow> (Status 400 ''Failed to create manual punch'', d')
                  | (Inr punch, d') \<Rightarrow> (Json punch, d'))" for e2
    using assms(1-5) ptne v(1)
    by (simp add: manualPunchRoute_def str_or_null_def)
  show ?thesis
  proof (intro conjI impI)
    assume "\<exists>p \<in> set (punches d). p_employeeId p = employeeId \<and> p_punchType p = ty
              \<and> p_timestamp p > now - 30000"
    then have "recentDuplicate d employeeId ty (now - 30000) \<noteq> None"
      by (simp add: recentDuplicate_None_iff)
    then show "manualPunchRoute sessionEmployeeId authErr newId now None insErr reqIp body d
              = (Status 400 ''Failed to create manual punch'', d)"
      using v by (auto simp: route createPunch_def)
  next
    assume "\<not> (\<exists>p \<in> set (punches d). p_employeeId p = employeeId \<and> p_punchType p = ty
              \<and> p_timestamp p > now - 30000)"
    then have "recentDuplicate d employeeId ty (now - 30000) = None"
      by (simp add: recentDuplicate_None_iff)
    then show "\<exists>punch row.
               manualPunchRoute sessionEmployeeId authErr newId now None None reqIp body d
                 = (Json punch, d \<lparr> punches := punches d @ [row] \<rparr>)
               \<and> p_id punch = newId \<and> p_employeeId punch = employeeId \<and> p_punchType punch = ty
               \<and> p_latitude punch = None \<and> p_longitude punch = None \<and> \<not> p_flagged punch
               \<and> p_id row = newId \<and> p_employeeId row = employeeId \<and> p_punchType row = ty
               \<and> p_latitude row = None \<and> p_longitude row = None \<and> \<not> p_flagged row"
      using v
      by (intro exI [of _ "\<lparr> p_id = newId, p_employeeId = employeeId, p_punchType = ty,
                 p_timestamp = now, p_latitude = None, p_longitude = None,
                 p_ipAddress = ip_ipAddress v, p_flagged = False \<rparr>"])
         (simp add: route createPunch_def or_null_def)
  qed
qed

theorem manualPunchRoute_uses_createPunch_witness:
  "manualPunchRoute (Some ''adm'') None ''p2'' (atTime 9 0 + 20000) None None None
      (manualBody ''e1'' (atTime 8 0) ''in'') dupDb
     = (Status 400 ''Failed to create manual punch'', dupDb)
   \<and> (\<exists>punch row.
        manualPunchRoute (Some ''adm'') None ''p2'' (atTime 9 0 + 20000) None None None
           (manualBody ''e1'' (atTime 8 0) ''out'') dupDb
          = (Json punch, dupDb \<lparr> punches := punches dupDb @ [row] \<rparr>)
        \<and> p_employeeId punch = ''e1'' \<and> p_punchType punch = Out
        \<and> p_employeeId row = ''e1'' \<and> p_punchType row = Out)"
proof -
  have adm: "requireAdmin (Some ''adm'') None dupDb = None"
    by (simp add: requireAdmin_def getEmployee_def str_or_null_def dupDb_def emptyDb_def
          adminEmployee_def workerEmployee_def)
  have e: "''e1'' \<noteq> []" by simp
  have tin: "parsePunchType ''in'' = Some In" and tout: "parsePunchType ''out'' = Some Out"
    by (simp_all add: parsePunchType_def)
  have bin: "mb_employeeId (manualBody ''e1'' (atTime 8 0) ''in'') = Some ''e1''"
      "mb_timestamp (manualBody ''e1'' (atTime 8 0) ''in'') = Some (atTime 8 0)"
      "mb_punchType (manualBody ''e1'' (atTime 8 0) ''in'') = Some ''in''"
    and bout: "mb_employeeId (manualBody ''e1'' (atTime 8 0) ''out'') = Some ''e1''"
      "mb_timestamp (manualBody ''e1'' (atTime 8 0) ''out'') = Some (atTime 8 0)"
      "mb_punchType (manualBody ''e1'' (atTime 8 0) ''out'') = Some ''out''"
    by (simp_all add: manualBody_def)
  have dup: "\<exists>p \<in> set (punches dupDb). p_employeeId p = ''e1'' \<and> p_punchType p = In
               \<and> p_timestamp p > atTime 9 0 + 20000 - 30000"
    by (simp add: dupDb_def emptyDb_def mkPunch_def)
  have nodup: "\<not> (\<exists>p \<in> set (punches dupDb). p_employeeId p = ''e1'' \<and> p_punchType p = Out
               \<and> p_timestamp p > atTime 9 0 + 20000 - 30000)"
    by (simp add: dupDb_def emptyDb_def mkPunch_def)
  from manualPunchRoute_uses_createPunch
         [OF adm bin(1) e bin(2) bin(3) tin, of "atTime 9 0 + 20000" "''p2''" None None] dup
  have first: "manualPunchRoute (Some ''adm'') None ''p2'' (atTime 9 0 + 20000) None None None
      (manualBody ''e1'' (atTime 8 0) ''in'') dupDb
     = (Status 400 ''Failed to create manual punch'', dupDb)"
    by blast
  from manualPunchRoute_uses_createPunch
         [OF adm bout(1) e bout(2) bout(3) tout, of "atTime 9 0 + 20000" "''p2''" None None] nodup
  have second: "\<exists>punch row.
        manualPunchRoute (Some ''adm'') None ''p2'' (atTime 9 0 + 20000) None None None
           (manualBody ''e1'' (atTime 8 0) ''out'') dupDb
          = (Json punch, dupDb \<lparr> punches := punches dupDb @ [row] \<rparr>)
        \<and> p_employeeId punch = ''e1'' \<and> p_punchType punch = Out
        \<and> p_employeeId row = ''e1'' \<and> p_punchType row = Out"
    by blast
  from first second show ?thesis by (rule conjI)
qed

section \<open>Deciding a correction\<close>

text \<open>
  What a denial does when it carries a text as note or no note at all, and when the
  note is \<open>null\<close>. The admin page keeps its deny button disabled while the note is
  blank; the route and the storage have no such check.
\<close>

lemma correctionRoute_denial_stored:
  assumes "requireAdmin sessionEmployeeId authErr d = None"
    and "find (\<lambda>row. c_id row = i) (corrections d) = Some C"
    and "cu_status body = Some (Some Denied)"
    and "cu_note body \<noteq> Some None"
  shows "fst (correctionRoute sessionEmployeeId authErr None None i body d)
           = Json (C \<lparr> c_status := Denied,
                         c_note := (case cu_note body of Some (Some n) \<Rightarrow> n | _ \<Rightarrow> c_note C) \<rparr>)"
proof -
  let ?C' = "C \<lparr> c_status := Denied,
                  c_note := (case cu_note body of Some (Some n) \<Rightarrow> n | _ \<Rightarrow> c_note C) \<rparr>"
  let ?d' = "d \<lparr> corrections :=
                   map (\<lambda>row. if c_id row = i then setCorrectionColumns body row else row)
                       (corrections d) \<rparr>"
  have cols: "setCorrectionColumns body C = ?C'"
    using assms(3) by (simp add: setCorrectionColumns_def)
  have fnd: "find (\<lambda>row. c_id row = i) (corrections ?d') = Some ?C'"
    using assms(2) cols
    by (simp add: find_map_same_id [where key = c_id, OF c_id_setCorrectionColumns])
  have upd: "updateCorrection None None i body d = (Some ?C', ?d')"
    using fnd assms(3,4) by (simp add: updateCorrection_def selectCorrectionWhereId_def Let_def)
  have "correctionRoute sessionEmployeeId authErr None None i body d = (Json ?C', ?d')"
    using assms(1) upd by (simp add: correctionRoute_def)
  then show ?thesis by simp
qed

lemma correctionRoute_null_note:
  assumes "requireAdmin sessionEmployeeId authErr d = None"
    and "cu_note body = Some None"
  shows "correctionRoute sessionEmployeeId authErr None err2 i body d
           = (Status 404 ''Correction not found'', d)"
  using assms by (simp add: correctionRoute_def updateCorrection_def)

text \<open>
  \<^bold>\<open>C5.\<close> The claim asks that a denial with a missing, empty or blank note be
  refused and leave the correction as it was. The server does not refuse it. On the
  pending correction \<open>c1\<close>, a denial whose body has no note answers with the correction
  in status \<open>denied\<close>; a denial with the empty note or with a note of two blanks does
  the same and also overwrites the stored note. In each case the stored row has
  changed.
\<close>

theorem correctionRoute_accepts_denial_without_note:
  "correctionRoute (Some ''adm'') None None None ''c1'' (denyBody None) correctionDb
     = (Json (pendingCorrection \<lparr> c_status := Denied \<rparr>),
        correctionDb \<lparr> corrections := [pendingCorrection \<lparr> c_status := Denied \<rparr>] \<rparr>)
   \<and> correctionRoute (Some ''adm'') None None None ''c1'' (denyBody (Some (Some []))) correctionDb
     = (Json (pendingCorrection \<lparr> c_status := Denied, c_note := [] \<rparr>),
        correctionDb \<lparr> corrections := [pendingCorrection \<lparr> c_status := Denied, c_note := [] \<rparr>] \<rparr>)
   \<and> correctionRoute (Some ''adm'') None None None ''c1'' (denyBody (Some (Some ''  ''))) correctionDb
     = (Json (pendingCorrection \<lparr> c_status := Denied, c_note := ''  '' \<rparr>),
        correctionDb \<lparr> corrections := [pendingCorrection \<lparr> c_status := Denied, c_note := ''  '' \<rparr>] \<rparr>)"
  by (simp add: correctionRoute_def requireAdmin_def getEmployee_def str_or_null_def
        updateCorrection_def selectCorrectionWhereId_def setCorrectionColumns_def denyBody_def
        correctionDb_def dupDb_def emptyDb_def adminEmployee_def workerEmployee_def
        pendingCorrection_def)

section \<open>Admin statistics\<close>

text \<open>What the four queries count, when the driver serves them.\<close>

lemma getAdminStats_counts:
  "activeEmployees (getAdminStats setHours0 now None e2 e3 e4 d)
     = length (filter e_isActive (employees d))"
  "punchesToday (getAdminStats setHours0 now e1 e2 None e4 d)
     = length (filter (\<lambda>p. setHours0 now \<le> p_timestamp p
                           \<and> p_timestamp p < setHours0 now + 86400000) (punches d))"
  "pendingCorrections (getAdminStats setHours0 now e1 e2 e3 None d)
     = length (filter (\<lambda>c. c_status c = Pending) (corrections d))"
  by (simp_all add: getAdminStats_def Let_def)

lemma getAdminStats_clockedInToday:
  "clockedInToday (getAdminStats setHours0 now e1 None e3 e4 d)
     = card {e. \<exists>p \<in> set (punches d). p_employeeId p = e \<and> p_punchType p = In
                  \<and> setHours0 now \<le> p_timestamp p \<and> p_timestamp p < setHours0 now + 86400000}"
  unfolding getAdminStats_def Let_def
  by (simp add: length_remdups_card_conv) (rule arg_cong [where f = card], auto)

text \<open>
  \<^bold>\<open>C4.\<close> \<open>clockedInToday\<close> of \<open>SqliteStorage.getAdminStats\<close> counts the employees
  with any \<open>in\<close> punch today, not those whose last punch of today is \<open>in\<close>. With one
  worker who clocked in at 09:00 and out at 17:00, the code reports \<open>1\<close> at 18:00 where
  the claim asks for \<open>0\<close>; the other three counts are as the claim says.
\<close>

theorem getAdminStats_clockedInToday_counts_any_in_punch:
  "getAdminStats utcMidnight (atTime 18 0) None None None None statsDb
     = \<lparr> activeEmployees = 2, clockedInToday = 1, punchesToday = 2, pendingCorrections = 0 \<rparr>
   \<and> clockedInTodayAsClaimed (utcMidnight (atTime 18 0)) (utcMidnight (atTime 18 0) + 86400000)
        (punches statsDb) = 0"
  by (simp add: getAdminStats_def clockedInTodayAsClaimed_def lastPunchOfTodayIsIn_def statsDb_def
        emptyDb_def adminEmployee_def workerEmployee_def mkPunch_def atTime_def utcMidnight_def)

section \<open>Time-off requests in a range\<close>

lemma inRangeWhere_rowTo:
  "inRangeWhere qStart qEnd (rowToTimeOffRequest row) = inRangeWhere qStart qEnd row"
  by (simp add: inRangeWhere_def rowToTimeOffRequest_def)

lemma returned_iff_where:
  assumes "R \<in> set (timeOffRequests d)"
  shows "rowToTimeOffRequest R \<in> set (getTimeOffRequestsInRange None qStart qEnd d)
           \<longleftrightarrow> inRangeWhere qStart qEnd R"
proof
  assume "rowToTimeOffRequest R \<in> set (getTimeOffRequestsInRange None qStart qEnd d)"
  then obtain R' where "inRangeWhere qStart qEnd R'"
      and "rowToTimeOffRequest R' = rowToTimeOffRequest R"
    by (auto simp: getTimeOffRequestsInRange_def)
  then have "inRangeWhere qStart qEnd (rowToTimeOffRequest R)"
    using inRangeWhere_rowTo [of qStart qEnd R'] by simp
  then show "inRangeWhere qStart qEnd R"
    by (simp only: inRangeWhere_rowTo)
next
  assume "inRangeWhere qStart qEnd R"
  with assms show "rowToTimeOffRequest R \<in> set (getTimeOffRequestsInRange None qStart qEnd d)"
    by (simp add: getTimeOffRequestsInRange_def)
qed

lemma intersect_imp_where:
  "intervalsIntersect (t_startDate R) (t_endDate R) qStart qEnd \<Longrightarrow> inRangeWhere qStart qEnd R"
  unfolding intervalsIntersect_def inRangeWhere_def
  by (meson order_trans)

lemma where_imp_intersect:
  assumes "inRangeWhere qStart qEnd R" and "t_startDate R \<le> t_endDate R" and "qStart \<le> qEnd"
  shows "intervalsIntersect (t_startDate R) (t_endDate R) qStart qEnd"
proof (cases "qStart \<le> t_startDate R")
  case True
  with assms have "t_startDate R \<le> qEnd" by (auto simp: inRangeWhere_def)
  with True assms(2) show ?thesis
    unfolding intervalsIntersect_def by (intro exI [of _ "t_startDate R"]) simp
next
  case False
  then have "t_startDate R \<le> qStart" by simp
  moreover from False assms have "qStart \<le> t_endDate R" by (auto simp: inRangeWhere_def)
  ultimately show ?thesis
    using assms(3) unfolding intervalsIntersect_def by (intro exI [of _ qStart]) simp
qed

text \<open>
  \<^bold>\<open>C8\<close>, as the claim states it, fails for a stored request whose end date precedes
  its start date (the route stores any two strings): the second disjunct of the
  \<open>WHERE\<close> clause returns it whenever its start date lies in the query range, although
  its interval is empty and intersects nothing.
\<close>

theorem getTimeOffRequestsInRange_reversed_counterexample:
  "mkRequest ''r2'' ''2025-03-15'' ''2025-03-10''
       \<in> set (getTimeOffRequestsInRange None ''2025-03-14'' ''2025-03-16'' reversedDb)
   \<and> \<not> intervalsIntersect ''2025-03-15'' ''2025-03-10'' ''2025-03-14'' ''2025-03-16''"
proof
  show "mkRequest ''r2'' ''2025-03-15'' ''2025-03-10''
       \<in> set (getTimeOffRequestsInRange None ''2025-03-14'' ''2025-03-16'' reversedDb)"
    by (simp add: getTimeOffRequestsInRange_def inRangeWhere_def reversedDb_def emptyDb_def
          rowToTimeOffRequest_def mkRequest_def)
  show "\<not> intervalsIntersect ''2025-03-15'' ''2025-03-10'' ''2025-03-14'' ''2025-03-16''"
  proof
    assume "intervalsIntersect ''2025-03-15'' ''2025-03-10'' ''2025-03-14'' ''2025-03-16''"
    then obtain x :: string where "''2025-03-15'' \<le> x" and "x \<le> ''2025-03-10''"
      by (auto simp: intervalsIntersect_def)
    then have "''2025-03-15'' \<le> ''2025-03-10''" by (rule order_trans)
    then show False by simp
  qed
qed

text \<open>
  \<^bold>\<open>C8\<close>, amended. For a stored request \<open>R\<close> and a query served by the driver, with
  dates compared as strings: if the closed intervals intersect, \<open>R\<close> is returned; if
  \<open>R\<close> has \<open>startDate \<le> endDate\<close> and the query has \<open>qStart \<le> qEnd\<close>, then \<open>R\<close> is
  returned exactly when the intervals intersect; and \<open>isPartialDay\<close>, \<open>startTime\<close> and
  \<open>endTime\<close> play no part in the selection. Both requests of the claim's example are
  returned (see the witness).
\<close>

theorem getTimeOffRequestsInRange_overlap:
  assumes "R \<in> set (timeOffRequests d)"
  shows "(intervalsIntersect (t_startDate R) (t_endDate R) qStart qEnd
            \<longrightarrow> rowToTimeOffRequest R \<in> set (getTimeOffRequestsInRange None qStart qEnd d))
       \<and> (t_startDate R \<le> t_endDate R \<and> qStart \<le> qEnd \<longrightarrow>
            (rowToTimeOffRequest R \<in> set (getTimeOffRequestsInRange None qStart qEnd d)
               \<longleftrightarrow> intervalsIntersect (t_startDate R) (t_endDate R) qStart qEnd))
       \<and> inRangeWhere qStart qEnd (R \<lparr> t_isPartialDay := b, t_startTime := st, t_endTime := et \<rparr>)
            = inRangeWhere qStart qEnd R"
  using returned_iff_where [OF assms, of qStart qEnd]
        intersect_imp_where [of R qStart qEnd] where_imp_intersect [of qStart qEnd R]
  by (auto simp: inRangeWhere_def)

theorem getTimeOffRequestsInRange_overlap_witness:
  "mkRequest ''r1'' ''2025-03-10'' ''2025-03-12''
       \<in> set (getTimeOffRequestsInRange None ''2025-03-11'' ''2025-03-11'' timeOffDb)
   \<and> mkRequest ''r1'' ''2025-03-10'' ''2025-03-12''
       \<in> set (getTimeOffRequestsInRange None ''2025-03-12'' ''2025-03-20'' timeOffDb)
   \<and> intervalsIntersect ''2025-03-10'' ''2025-03-12'' ''2025-03-11'' ''2025-03-11''
   \<and> intervalsIntersect ''2025-03-10'' ''2025-03-12'' ''2025-03-12'' ''2025-03-20''
   \<and> mkRequest ''r1'' ''2025-03-10'' ''2025-03-12''
       \<notin> set (getTimeOffRequestsInRange None ''2025-03-13'' ''2025-03-20'' timeOffDb)
   \<and> \<not> intervalsIntersect ''2025-03-10'' ''2025-03-12'' ''2025-03-13'' ''2025-03-20''"
proof -
  let ?R = "mkRequest ''r1'' ''2025-03-10'' ''2025-03-12''"
  have mem: "?R \<in> set (timeOffRequests timeOffDb)"
    by (simp add: timeOffDb_def emptyDb_def)
  have row: "rowToTimeOffRequest ?R = ?R"
    by (simp add: rowToTimeOffRequest_def mkRequest_def)
  have dates: "t_startDate ?R = ''2025-03-10''" "t_endDate ?R = ''2025-03-12''"
    by (simp_all add: mkRequest_def)
  have a: "?R \<in> set (getTimeOffRequestsInRange None ''2025-03-11'' ''2025-03-11'' timeOffDb)"
    by (simp add: getTimeOffRequestsInRange_def inRangeWhere_def timeOffDb_def emptyDb_def
          rowToTimeOffRequest_def mkRequest_def)
  have b: "?R \<in> set (getTimeOffRequestsInRange None ''2025-03-12'' ''2025-03-20'' timeOffDb)"
    by (simp add: getTimeOffRequestsInRange_def inRangeWhere_def timeOffDb_def emptyDb_def
          rowToTimeOffRequest_def mkRequest_def)
  have c: "?R \<notin> set (getTimeOffRequestsInRange None ''2025-03-13'' ''2025-03-20'' timeOffDb)"
    by (simp add: getTimeOffRequestsInRange_def inRangeWhere_def timeOffDb_def emptyDb_def
          rowToTimeOffRequest_def mkRequest_def)
  show ?thesis
    using a b c
      getTimeOffRequestsInRange_overlap [OF mem, of "''2025-03-11''" "''2025-03-11''"]
      getTimeOffRequestsInRange_overlap [OF mem, of "''2025-03-12''" "''2025-03-20''"]
      getTimeOffRequestsInRange_overlap [OF mem, of "''2025-03-13''" "''2025-03-20''"]
    by (simp add: row dates)
qed

section \<open>Time reconstruction\<close>

lemma punchType_not_In [simp]: "(ty \<noteq> In) = (ty = Out)"
  by (cases ty) auto

text \<open>
  The invariant of the first loop: after a punch \<open>p\<close>, \<open>lastClockIn\<close> is \<open>openAfter p\<close>.
  From there the loop adds the gaps of the neighbours \<open>in, out\<close> that are still to
  come.
\<close>

lemma workedLoop_adjacent:
  "workedLoop ps totalWorked (openAfter p)
     = (totalWorked + adjacentGaps In Out (p # ps), openAfter (last (p # ps)))"
proof (induction ps arbitrary: p totalWorked)
  case Nil
  show ?case by simp
next
  case (Cons q qs)
  show ?case
  proof (cases "p_punchType q")
    case In
    then have "workedLoop (q # qs) totalWorked (openAfter p)
                 = workedLoop qs totalWorked (openAfter q)"
      by (simp add: openAfter_def)
    with In show ?thesis by (simp add: Cons.IH)
  next
    case Out
    show ?thesis
    proof (cases "p_punchType p")
      case In
      with Out have "workedLoop (q # qs) totalWorked (openAfter p)
                       = workedLoop qs (totalWorked + (p_timestamp q - p_timestamp p)) (openAfter q)"
        by (simp add: openAfter_def)
      with In Out show ?thesis by (simp add: Cons.IH)
    next
      case prevOut: Out
      with Out have "workedLoop (q # qs) totalWorked (openAfter p)
                       = workedLoop qs totalWorked (openAfter q)"
        by (simp add: openAfter_def)
      with Out prevOut show ?thesis by (simp add: Cons.IH)
    qed
  qed
qed

lemma workedLoop_start:
  "workedLoop (p # ps) totalWorked None = workedLoop ps totalWorked (openAfter p)"
  by (simp add: openAfter_def)

lemma workedLoop_from_start:
  "ps \<noteq> [] \<Longrightarrow> workedLoop ps 0 None = (adjacentGaps In Out ps, openAfter (last ps))"
  by (cases ps) (simp_all only: workedLoop_start workedLoop_adjacent, simp_all)

lemma breakLoop_adjacent: "breakLoop ps totalBreak = totalBreak + adjacentGaps Out In ps"
  by (induction ps totalBreak rule: breakLoop.induct) simp_all

lemma sort_key_eq_Nil [simp]: "sort_key f xs = [] \<longleftrightarrow> xs = []"
  by (metis length_sort length_0_conv)

text \<open>The worked total in general, with the live add-on of an open last session.\<close>

lemma hoursWorked_general:
  assumes "todayPunches \<noteq> []"
  shows "hoursWorked (hoursWorkedAndBreakTime now isCurrentlyClockedIn todayPunches)
     = of_int (adjacentGaps In Out (sort_key p_timestamp todayPunches)
               + (case openAfter (last (sort_key p_timestamp todayPunches)) of
                    Some clockIn \<Rightarrow> if isCurrentlyClockedIn then now - clockIn else 0
                  | None \<Rightarrow> 0)) / 3600000"
proof -
  from assms have ne: "sort_key p_timestamp todayPunches \<noteq> []" by simp
  show ?thesis
    using assms
    by (simp add: hoursWorkedAndBreakTime_def Let_def workedLoop_from_start [OF ne]
          split: option.splits)
qed

text \<open>
  \<^bold>\<open>C2.\<close> The day \<open>in 09:00, out 12:00, in 13:00, out 17:00\<close> gives seven hours worked
  and sixty minutes of break. In general, for an employee who is not clocked in, the
  hours are the gaps of the neighbours \<open>in, out\<close> of the punches sorted by time, summed
  and divided by 3,600,000; the break minutes, for any employee, are the gaps of the
  neighbours \<open>out, in\<close>, summed and divided by 60,000.
\<close>

theorem hoursWorkedAndBreakTime_pairs:
  "hoursWorkedAndBreakTime now False fullDay = \<lparr> hoursWorked = 7, breakTime = 60 \<rparr>
   \<and> hoursWorked (hoursWorkedAndBreakTime now False todayPunches)
      = of_int (adjacentGaps In Out (sort_key p_timestamp todayPunches)) / 3600000
   \<and> breakTime (hoursWorkedAndBreakTime now isCurrentlyClockedIn todayPunches)
      = of_int (adjacentGaps Out In (sort_key p_timestamp todayPunches)) / 60000"
proof (intro conjI)
  show "hoursWorkedAndBreakTime now False fullDay = \<lparr> hoursWorked = 7, breakTime = 60 \<rparr>"
    by (simp add: hoursWorkedAndBreakTime_def fullDay_def mkPunch_def atTime_def)
  show "hoursWorked (hoursWorkedAndBreakTime now False todayPunches)
      = of_int (adjacentGaps In Out (sort_key p_timestamp todayPunches)) / 3600000"
  proof (cases "todayPunches = []")
    case True
    then show ?thesis by (simp add: hoursWorkedAndBreakTime_def)
  next
    case False
    then show ?thesis by (simp add: hoursWorked_general split: option.splits)
  qed
  show "breakTime (hoursWorkedAndBreakTime now isCurrentlyClockedIn todayPunches)
      = of_int (adjacentGaps Out In (sort_key p_timestamp todayPunches)) / 60000"
    by (simp add: hoursWorkedAndBreakTime_def Let_def breakLoop_adjacent split: prod.splits)
qed

theorem hoursWorkedAndBreakTime_pairs_witness:
  "hoursWorkedAndBreakTime (atTime 18 0) False (rev fullDay) = \<lparr> hoursWorked = 7, breakTime = 60 \<rparr>
   \<and> adjacentGaps In Out (sort_key p_timestamp (rev fullDay)) = 25200000
   \<and> adjacentGaps Out In (sort_key p_timestamp (rev fullDay)) = 3600000"
proof -
  have s: "sort_key p_timestamp (rev fullDay) = fullDay"
    by (simp add: fullDay_def mkPunch_def atTime_def)
  have w: "adjacentGaps In Out fullDay = 25200000"
    by (simp add: fullDay_def mkPunch_def atTime_def)
  have b: "adjacentGaps Out In fullDay = 3600000"
    by (simp add: fullDay_def mkPunch_def atTime_def)
  have "hoursWorked (hoursWorkedAndBreakTime (atTime 18 0) False (rev fullDay)) = 7"
    and "breakTime (hoursWorkedAndBreakTime (atTime 18 0) False (rev fullDay)) = 60"
    using hoursWorkedAndBreakTime_pairs [of "atTime 18 0" "rev fullDay" False]
    by (simp_all add: s w b)
  then have "hoursWorkedAndBreakTime (atTime 18 0) False (rev fullDay)
               = \<lparr> hoursWorked = 7, breakTime = 60 \<rparr>"
    by (cases "hoursWorkedAndBreakTime (atTime 18 0) False (rev fullDay)") simp
  then show ?thesis by (simp add: s w b)
qed



text \<open>
  The weekly loop keeps the same state as the loop of today's totals; its running sum
  is the sum of the same gaps, each divided before it is added.
\<close>

lemma dayLoop_adjacent:
  "dayLoop ps dayHours (openAfter p)
     = (dayHours + of_int (adjacentGaps In Out (p # ps)) / 3600000, openAfter (last (p # ps)))"
proof (induction ps arbitrary: p dayHours)
  case Nil
  show ?case by simp
next
  case (Cons q qs)
  show ?case
  proof (cases "p_punchType q")
    case In
    then have "dayLoop (q # qs) dayHours (openAfter p) = dayLoop qs dayHours (openAfter q)"
      by (simp add: openAfter_def)
    with In show ?thesis by (simp add: Cons.IH)
  next
    case Out
    show ?thesis
    proof (cases "p_punchType p")
      case In
      with Out have "dayLoop (q # qs) dayHours (openAfter p)
                       = dayLoop qs (dayHours + of_int (p_timestamp q - p_timestamp p) / 3600000)
                           (openAfter q)"
        by (simp add: openAfter_def)
      with In Out show ?thesis by (simp add: Cons.IH add_divide_distrib)
    next
      case prevOut: Out
      with Out have "dayLoop (q # qs) dayHours (openAfter p) = dayLoop qs dayHours (openAfter q)"
        by (simp add: openAfter_def)
      with Out prevOut show ?thesis by (simp add: Cons.IH)
    qed
  qed
qed

lemma dayLoop_start:
  "dayLoop (p # ps) dayHours None = dayLoop ps dayHours (openAfter p)"
  by (simp add: openAfter_def)

lemma dayLoop_from_start:
  "dayLoop ps 0 None = (of_int (adjacentGaps In Out ps) / 3600000, trailingIn ps)"
proof (cases ps)
  case Nil
  then show ?thesis by (simp add: trailingIn_def)
next
  case (Cons p rest)
  then show ?thesis
    by (simp only: dayLoop_start dayLoop_adjacent trailingIn_def) simp
qed

lemma workedLoop_trailingIn:
  "workedLoop ps 0 None = (adjacentGaps In Out ps, trailingIn ps)"
proof (cases "ps = []")
  case True
  then show ?thesis by (simp add: trailingIn_def)
next
  case False
  then show ?thesis
    using workedLoop_from_start [OF False] by (simp add: trailingIn_def)
qed

text \<open>
  \<^bold>\<open>C7.\<close> For every list of punches, the worked time is that of the closed sessions
  plus, for an unpaired trailing \<open>in\<close>, the live time since it, and the live time is
  added for the current day only. In today's totals it is \<open>now\<close> minus the trailing
  \<open>in\<close>, added when the employee is clocked in. In the weekly view it is added to a
  day only if that day is today and the employee is clocked in; on any other day the
  open session adds nothing. So \<open>in 09:00\<close> alone with now 11:00 gives two hours
  today, and zero as the punch of a past day.
\<close>

theorem open_session_counts_only_today:
  "hoursWorked (hoursWorkedAndBreakTime now isCurrentlyClockedIn todayPunches)
     = of_int (adjacentGaps In Out (sort_key p_timestamp todayPunches)
               + (case trailingIn (sort_key p_timestamp todayPunches) of
                    Some clockIn \<Rightarrow> if isCurrentlyClockedIn then now - clockIn else 0
                  | None \<Rightarrow> 0)) / 3600000
   \<and> dayHoursOf toDateString today isCurrentlyClockedIn weeklyPunches currentDay
     = of_int (adjacentGaps In Out
                 (sort_key p_timestamp
                    (filter (\<lambda>punch. toDateString (p_timestamp punch) = toDateString currentDay)
                       weeklyPunches))
               + (case trailingIn
                         (sort_key p_timestamp
                            (filter (\<lambda>punch. toDateString (p_timestamp punch) = toDateString currentDay)
                               weeklyPunches)) of
                    Some clockIn \<Rightarrow>
                      if toDateString currentDay = toDateString today \<and> isCurrentlyClockedIn
                      then today - clockIn else 0
                  | None \<Rightarrow> 0)) / 3600000
   \<and> hoursWorked (hoursWorkedAndBreakTime (atTime 11 0) True [mkPunch ''a'' ''e1'' In (atTime 9 0)]) = 2
   \<and> dayHoursOf utcDay (atTime 11 0) True [mkPunch ''a'' ''e1'' In (atTime 9 0)] (atTime 0 0) = 2
   \<and> dayHoursOf utcDay (atTime 35 0) True [mkPunch ''a'' ''e1'' In (atTime 9 0)] (atTime 0 0) = 0"
proof (intro conjI)
  show "hoursWorked (hoursWorkedAndBreakTime now isCurrentlyClockedIn todayPunches)
     = of_int (adjacentGaps In Out (sort_key p_timestamp todayPunches)
               + (case trailingIn (sort_key p_timestamp todayPunches) of
                    Some clockIn \<Rightarrow> if isCurrentlyClockedIn then now - clockIn else 0
                  | None \<Rightarrow> 0)) / 3600000"
  proof (cases "todayPunches = []")
    case True
    then show ?thesis by (simp add: hoursWorkedAndBreakTime_def trailingIn_def)
  next
    case False
    then show ?thesis
      by (simp add: hoursWorkedAndBreakTime_def Let_def workedLoop_trailingIn
            split: option.splits)
  qed
  show "dayHoursOf toDateString today isCurrentlyClockedIn weeklyPunches currentDay
     = of_int (adjacentGaps In Out
                 (sort_key p_timestamp
                    (filter (\<lambda>punch. toDateString (p_timestamp punch) = toDateString currentDay)
                       weeklyPunches))
               + (case trailingIn
                         (sort_key p_timestamp
                            (filter (\<lambda>punch. toDateString (p_timestamp punch) = toDateString currentDay)
                               weeklyPunches)) of
                    Some clockIn \<Rightarrow>
                      if toDateString currentDay = toDateString today \<and> isCurrentlyClockedIn
                      then today - clockIn else 0
                  | None \<Rightarrow> 0)) / 3600000"
    by (cases "trailingIn (sort_key p_timestamp
                 (filter (\<lambda>punch. toDateString (p_timestamp punch) = toDateString currentDay)
                    weeklyPunches))")
       (simp_all add: dayHoursOf_def Let_def dayLoop_from_start add_divide_distrib)
  show "hoursWorked (hoursWorkedAndBreakTime (atTime 11 0) True [mkPunch ''a'' ''e1'' In (atTime 9 0)]) = 2"
    by (simp add: hoursWorkedAndBreakTime_def mkPunch_def atTime_def)
  show "dayHoursOf utcDay (atTime 11 0) True [mkPunch ''a'' ''e1'' In (atTime 9 0)] (atTime 0 0) = 2"
    by (simp add: dayHoursOf_def mkPunch_def atTime_def utcDay_def)
  show "dayHoursOf utcDay (atTime 35 0) True [mkPunch ''a'' ''e1'' In (atTime 9 0)] (atTime 0 0) = 0"
    by (simp add: dayHoursOf_def mkPunch_def atTime_def utcDay_def)
qed

theorem open_session_counts_only_today_witness:
  "hoursWorked (hoursWorkedAndBreakTime (atTime 11 0) True openDay) = 5 / 2
   \<and> hoursWorked (hoursWorkedAndBreakTime (atTime 11 0) False openDay) = 1 / 2
   \<and> dayHoursOf utcDay (atTime 11 0) True openDay (atTime 0 0) = 5 / 2
   \<and> dayHoursOf utcDay (atTime 35 0) True openDay (atTime 0 0) = 1 / 2
   \<and> dayHoursOf utcDay (atTime 35 0) True openDay (atTime 24 0) = 0"
proof -
  have srt: "sort_key p_timestamp openDay = openDay"
    by (simp add: openDay_def mkPunch_def atTime_def)
  have day: "filter (\<lambda>punch. utcDay (p_timestamp punch) = utcDay (atTime 0 0)) openDay = openDay"
    by (simp add: openDay_def mkPunch_def atTime_def utcDay_def)
  have other: "filter (\<lambda>punch. utcDay (p_timestamp punch) = utcDay (atTime 24 0)) openDay = []"
    by (simp add: openDay_def mkPunch_def atTime_def utcDay_def)
  have gaps: "adjacentGaps In Out openDay = 1800000"
    by (simp add: openDay_def mkPunch_def atTime_def)
  have trail: "trailingIn openDay = Some (atTime 9 0)"
    by (simp add: trailingIn_def openAfter_def openDay_def mkPunch_def)
  have nil: "trailingIn [] = None"
    by (simp add: trailingIn_def)
  note g1 = open_session_counts_only_today
              [of "atTime 11 0" True openDay utcDay "atTime 11 0" openDay "atTime 0 0"]
  note g2 = open_session_counts_only_today
              [of "atTime 11 0" False openDay utcDay "atTime 35 0" openDay "atTime 0 0"]
  note g3 = open_session_counts_only_today
              [of "atTime 11 0" True openDay utcDay "atTime 35 0" openDay "atTime 24 0"]
  have t1: "hoursWorked (hoursWorkedAndBreakTime (atTime 11 0) True openDay) = 5 / 2"
    using g1 [THEN conjunct1, unfolded srt gaps trail] by (simp add: atTime_def)
  have w1: "dayHoursOf utcDay (atTime 11 0) True openDay (atTime 0 0) = 5 / 2"
    using g1 [THEN conjunct2, THEN conjunct1, unfolded day srt gaps trail]
    by (simp add: atTime_def utcDay_def)
  have t2: "hoursWorked (hoursWorkedAndBreakTime (atTime 11 0) False openDay) = 1 / 2"
    using g2 [THEN conjunct1, unfolded srt gaps trail] by simp
  have w2: "dayHoursOf utcDay (atTime 35 0) True openDay (atTime 0 0) = 1 / 2"
    using open_session_counts_only_today
            [of "atTime 11 0" True openDay utcDay "atTime 35 0" openDay "atTime 0 0",
             THEN conjunct2, THEN conjunct1, unfolded day srt gaps trail]
    by (simp add: atTime_def utcDay_def)
  have w3: "dayHoursOf utcDay (atTime 35 0) True openDay (atTime 24 0) = 0"
    using g3 [THEN conjunct2, THEN conjunct1, unfolded other] by (simp add: nil)
  from t1 t2 w1 w2 w3 show ?thesis by simp
qed

text \<open>Each entry of the weekly view carries the hours of its day.\<close>

lemma weeklyHours_hours:
  assumes "i < 7"
  shows "wd_hours (weeklyHours cal today isCurrentlyClockedIn weeklyPunches ! i)
           = dayHoursOf (cal_toDateString cal) today isCurrentlyClockedIn weeklyPunches
               (cal_addDays cal (cal_startOfWeek cal today) i)"
  using assms by (simp add: weeklyHours_def Let_def del: upt_Suc)

end
